theory Spec2Isabelle
  imports Complex_Main "HOL-Library.Sublist" "HOL-Library.Multiset"
begin

section \<open>JavaScript values used by the command-line actions\<close>

text \<open>
  Strings are lists of characters. A JavaScript number is \<open>NaN\<close>, an infinity
  (\<open>Infinity True\<close> is the positive one) or a finite value, kept as the rational it
  denotes; every finite double is such a rational, and negative zero is \<open>Finite 0\<close>.
  Where the source computes an integer (\<open>parseInt\<close>, \<open>+\<close> on a counter) the model
  keeps the exact integer; the double that JavaScript holds equals it as long as its
  magnitude does not exceed \<open>2 ^ 53\<close>.
\<close>

datatype number = NaN | Infinity bool | Finite rat

definition Num :: "int \<Rightarrow> number" where
  "Num n = Finite (of_int n)"



text \<open>A value of an untyped argument: a number, a string or \<open>undefined\<close>.\<close>

datatype jsvalue = JNumber number | JString string | JUndefined

text \<open>\<open>String.prototype.split(',')\<close>: always at least one piece.\<close>

fun split_comma :: "string \<Rightarrow> string list" where
  "split_comma [] = [[]]"
| "split_comma (c # cs) =
     (if c = CHR '','' then [] # split_comma cs
      else (case split_comma cs of [] \<Rightarrow> [[c]] | w # ws \<Rightarrow> (c # w) # ws))"

text \<open>The white space that \<open>parseInt\<close> skips, among the characters below 256.\<close>

definition isWhiteSpace :: "char \<Rightarrow> bool" where
  "isWhiteSpace c = (of_char c \<in> {9, 10, 11, 12, 13, 32, 160 :: nat})"

definition isDigit :: "char \<Rightarrow> bool" where
  "isDigit c = (48 \<le> (of_char c :: nat) \<and> (of_char c :: nat) \<le> 57)"

definition digitValue :: "char \<Rightarrow> int" where
  "digitValue c = int (of_char c) - 48"

text \<open>The value of a string of decimal digits, read left to right.\<close>

fun digitsValue :: "int \<Rightarrow> string \<Rightarrow> int" where
  "digitsValue acc [] = acc"
| "digitsValue acc (c # cs) = digitsValue (10 * acc + digitValue c) cs"

text \<open>
  \<open>parseInt(s, 10)\<close>: skip leading white space, read one optional sign, take the longest
  prefix of decimal digits; no digit at all gives \<open>NaN\<close>. With the radix given as 10 no
  \<open>0x\<close> prefix is recognised.
\<close>

definition parseInt10 :: "string \<Rightarrow> number" where
  "parseInt10 s =
     (let t = dropWhile isWhiteSpace s;
          sign = (case t of c # _ \<Rightarrow> (if c = CHR ''-'' then - 1 else 1) | [] \<Rightarrow> (1::int));
          u = (case t of c # r \<Rightarrow> (if c = CHR ''-'' \<or> c = CHR ''+'' then r else t) | [] \<Rightarrow> t);
          z = takeWhile isDigit u
      in if z = [] then NaN else Num (sign * digitsValue 0 z))"

definition isNaN :: "number \<Rightarrow> bool" where
  "isNaN n = (n = NaN)"

text \<open>Decimal text of a natural number, as a template literal prints an index.\<close>

fun showDigits :: "nat \<Rightarrow> nat \<Rightarrow> string" where
  "showDigits 0 n = []"
| "showDigits (Suc fuel) n =
     (if n < 10 then [char_of (48 + n)]
      else showDigits fuel (n div 10) @ [char_of (48 + n mod 10)])"

definition showNat :: "nat \<Rightarrow> string" where
  "showNat n = showDigits (Suc n) n"

section \<open>KeySharesAction: the operator list\<close>

text \<open>
  What the action can end in: the two exceptions it throws itself, the \<open>TypeError\<close> of
  \<open>path.basename\<close>, and whatever a collaborator throws.
\<close>

datatype error =
    OperatorsCountsMismatchError "string list" "string list" string
  | SSVKeysException string
  | TypeError string
  | CollaboratorError string

text \<open>The type \<open>Operator\<close> of the action; \<open>id'\<close> is its field \<open>id\<close>.\<close>

record Operator =
  id' :: number
  operatorKey :: string

text \<open>The arguments of the command line that the action reads.\<close>

record KeySharesArgs =
  keystore :: string
  operator_ids :: string
  operator_keys :: string
  output_folder :: string
  owner_address :: string
  owner_nonce :: jsvalue

text \<open>
  The callback of \<open>operatorIds.map\<close> in \<open>getOperators\<close>, run from position \<open>index\<close> on;
  the first identifier that does not parse throws. \<open>operatorKeys[index]\<close> is read in
  range: \<open>getOperators\<close> has compared the two lengths before.
\<close>

fun mapOperators :: "string list \<Rightarrow> nat \<Rightarrow> string list \<Rightarrow> error + Operator list" where
  "mapOperators operatorKeys index [] = Inr []"
| "mapOperators operatorKeys index (idString # rest) =
     (let ident = parseInt10 idString in
      if isNaN ident
      then Inl (SSVKeysException
             (''Invalid operator ID at position '' @ showNat index @ '': '' @ idString))
      else (case mapOperators operatorKeys (Suc index) rest of
              Inl e \<Rightarrow> Inl e
            | Inr ops \<Rightarrow> Inr (\<lparr>id' = ident, operatorKey = operatorKeys ! index\<rparr> # ops)))"

definition getOperators :: "KeySharesArgs \<Rightarrow> error + Operator list" where
  "getOperators args =
     (let operatorIds = split_comma (operator_ids args);
          operatorKeys = split_comma (operator_keys args)
      in if length operatorIds \<noteq> length operatorKeys
         then Inl (OperatorsCountsMismatchError operatorIds operatorKeys
                ''Mismatch amount of operator ids and operator keys.'')
         else if [] \<in> set operatorIds \<or> [] \<in> set operatorKeys
         then Inl (SSVKeysException ''Operator IDs or keys cannot contain empty strings.'')
         else mapOperators operatorKeys 0 operatorIds)"

section \<open>KeySharesAction: from keystore files to key-shares items\<close>

text \<open>
  \<open>this.args.owner_nonce + index\<close>: numbers add, a string is extended by the decimal text
  of the index, \<open>undefined\<close> gives \<open>NaN\<close>.
\<close>

definition plusIndex :: "jsvalue \<Rightarrow> nat \<Rightarrow> jsvalue" where
  "plusIndex v index =
     (case v of
        JNumber (Finite q) \<Rightarrow> JNumber (Finite (q + of_nat index))
      | JNumber other \<Rightarrow> JNumber other
      | JString s \<Rightarrow> JString (s @ showNat index)
      | JUndefined \<Rightarrow> JNumber NaN)"


definition elementText :: "string list \<Rightarrow> nat \<Rightarrow> string" where
  "elementText xs i = (if i < length xs then xs ! i else ''undefined'')"

text \<open>The object literals handed to the key-shares item.\<close>

record ItemUpdate =
  update_ownerAddress :: string
  update_ownerNonce :: jsvalue
  update_operators :: "Operator list"
  update_publicKey :: string

record 'sh PayloadData =
  data_publicKey :: string
  data_operators :: "Operator list"
  data_encryptedShares :: 'sh

record PayloadContext =
  context_ownerAddress :: string
  context_ownerNonce :: jsvalue
  context_privateKey :: string

text \<open>
  The library and the file system the action calls, none of them part of the action:
  each is a parameter, and a call that throws or rejects returns \<open>Inl\<close>. The file
  system answers the same path the same way throughout a run. The two validators answer
  whether their result is strictly \<open>true\<close>. \<open>extractKeys\<close> returns the private key
  first, the public key second.
\<close>

record ('d, 'sh, 'it) collaborators =
  sanitizePath :: "string \<Rightarrow> string"
  getKeyStoreFiles :: "string \<Rightarrow> error + string list"
  readdir :: "string \<Rightarrow> error + string list"
  fsReadFile :: "string \<Rightarrow> error + string"
  readFile :: "string \<Rightarrow> error + 'd"
  validateKeystore :: "string \<Rightarrow> error + bool"
  validatePassword :: "string \<Rightarrow> string \<Rightarrow> error + bool"
  extractKeys :: "'d \<Rightarrow> string \<Rightarrow> error + string \<times> string"
  buildShares :: "string \<Rightarrow> Operator list \<Rightarrow> error + 'sh"
  newKeySharesItem :: 'it
  itemUpdate :: "'it \<Rightarrow> ItemUpdate \<Rightarrow> error + 'it"
  itemBuildPayload :: "'it \<Rightarrow> 'sh PayloadData \<Rightarrow> PayloadContext \<Rightarrow> error + 'it"


definition processFile ::
  "('d, 'sh, 'it) collaborators \<Rightarrow> string \<Rightarrow> string \<Rightarrow> Operator list \<Rightarrow> string \<Rightarrow> jsvalue
     \<Rightarrow> error + 'it" where
  "processFile lib keystoreFilePath password operators ownerAddress ownerNonce =
     (case readFile lib keystoreFilePath of Inl e \<Rightarrow> Inl e | Inr keystoreData \<Rightarrow>
     (case extractKeys lib keystoreData password of Inl e \<Rightarrow> Inl e | Inr (privateKey, publicKey) \<Rightarrow>
     (case buildShares lib privateKey operators of Inl e \<Rightarrow> Inl e | Inr encryptedShares \<Rightarrow>
     (case itemUpdate lib (newKeySharesItem lib)
             \<lparr>update_ownerAddress = ownerAddress, update_ownerNonce = ownerNonce,
              update_operators = operators, update_publicKey = publicKey\<rparr> of
        Inl e \<Rightarrow> Inl e
      | Inr keySharesItem \<Rightarrow>
          itemBuildPayload lib keySharesItem
            \<lparr>data_publicKey = publicKey, data_operators = operators,
             data_encryptedShares = encryptedShares\<rparr>
            \<lparr>context_ownerAddress = ownerAddress, context_ownerNonce = ownerNonce,
             context_privateKey = privateKey\<rparr>))))"

text \<open>
  The callback of \<open>validatedFiles.map\<close> in \<open>processKeystorePath\<close>: the password file is
  read, then the arguments of \<open>processFile\<close> are evaluated left to right, so
  \<open>getOperators\<close> runs, and may throw, before \<open>processFile\<close> is entered.
\<close>

definition processEntry ::
  "('d, 'sh, 'it) collaborators \<Rightarrow> KeySharesArgs \<Rightarrow> string list \<Rightarrow> string \<Rightarrow> nat \<Rightarrow> error + 'it" where
  "processEntry lib args folder file index =
     (case fsReadFile lib (keystore args @ ''/'' @ elementText folder index @ ''/pw.txt'') of
        Inl e \<Rightarrow> Inl e
      | Inr passwordTest \<Rightarrow>
          (case getOperators args of
             Inl e \<Rightarrow> Inl e
           | Inr operators \<Rightarrow>
               processFile lib
                 (keystore args @ ''/'' @ elementText folder index @ ''/'' @ file)
                 passwordTest operators (owner_address args)
                 (plusIndex (owner_nonce args) index)))"

text \<open>
  \<open>Promise.all\<close> over the callbacks, from position \<open>index\<close> on: the items in file order
  when every callback succeeds, otherwise a rejection (here that of the first failing
  position).
\<close>

fun processEntries ::
  "('d, 'sh, 'it) collaborators \<Rightarrow> KeySharesArgs \<Rightarrow> string list \<Rightarrow> nat \<Rightarrow> string list
     \<Rightarrow> error + 'it list" where
  "processEntries lib args folder index [] = Inr []"
| "processEntries lib args folder index (file # rest) =
     (case processEntry lib args folder file index of
        Inl e \<Rightarrow> Inl e
      | Inr item \<Rightarrow>
          (case processEntries lib args folder (Suc index) rest of
             Inl e \<Rightarrow> Inl e
           | Inr items \<Rightarrow> Inr (item # items)))"


section \<open>BuildTransactionAction\<close>




text \<open>The arguments that \<open>execute\<close> reads; \<open>output'\<close> is the option \<open>output\<close>.\<close>

record BuildTransactionArgs =
  shares :: string
  private_key :: string
  operators_ids :: string
  token_amount :: string
  output' :: "string option"

text \<open>
  What \<open>execute\<close> calls: the helper that reads the shares file and the library's
  \<open>buildPayload\<close>, both parameters.
\<close>

record ('sh, 'p) ssvKeys =
  readSharesFile :: "string \<Rightarrow> error + 'sh"
  buildPayload :: "string \<Rightarrow> string list \<Rightarrow> 'sh \<Rightarrow> string \<Rightarrow> error + 'p"

text \<open>
  The payload that \<open>execute\<close> computes. The explanatory text it then builds around the
  payload, and the optional write of that text, are left out.
\<close>

definition executePayload :: "('sh, 'p) ssvKeys \<Rightarrow> BuildTransactionArgs \<Rightarrow> error + 'p" where
  "executePayload lib args =
     (case readSharesFile lib (shares args) of
        Inl e \<Rightarrow> Inl e
      | Inr encryptedShares \<Rightarrow>
          buildPayload lib (private_key args) (split_comma (operators_ids args))
            encryptedShares (token_amount args))"

section \<open>The payload assembler, from the specification\<close>

text \<open>
  Modelled from the spec: the library behind \<open>buildPayload\<close> is not among the source
  files, so the Payload Assembler of section 4.3 is written from the specification's
  words. A byte string is a list of 8-bit characters.
\<close>

type_synonym bytes = string

text \<open>
  Modelled from the spec: the "ABI convention" of section 4.3 is not spelled out; it is
  taken to be the contract ABI, whose unit is the 32-byte big-endian word. \<open>be_bytes k n\<close>
  are the \<open>k\<close> low bytes of \<open>n\<close>, most significant first.
\<close>

fun be_bytes :: "nat \<Rightarrow> nat \<Rightarrow> bytes" where
  "be_bytes 0 n = []"
| "be_bytes (Suc k) n = be_bytes k (n div 256) @ [char_of (n mod 256)]"

text \<open>Modelled from the spec: the number a big-endian byte string denotes.\<close>

definition read_nat :: "bytes \<Rightarrow> nat" where
  "read_nat bs = foldl (\<lambda>acc c. 256 * acc + of_char c) 0 bs"

text \<open>Modelled from the spec: an unsigned integer as one ABI word.\<close>

definition word32 :: "nat \<Rightarrow> bytes" where
  "word32 n = be_bytes 32 n"

text \<open>Modelled from the spec: the ABI word at the start of the data.\<close>

definition read_word :: "bytes \<Rightarrow> nat" where
  "read_word data = read_nat (take 32 data)"

text \<open>Modelled from the spec: zero padding of a byte string to whole ABI words.\<close>

definition pad32 :: "bytes \<Rightarrow> bytes" where
  "pad32 b = b @ replicate ((32 - length b mod 32) mod 32) (char_of (0::nat))"

text \<open>Modelled from the spec: ABI \<open>bytes\<close>, the length word and then the padded bytes.\<close>

definition enc_bytes :: "bytes \<Rightarrow> bytes" where
  "enc_bytes b = word32 (length b) @ pad32 b"

text \<open>
  Modelled from the spec: ABI-decoding a byte string (section 4.4: "attempting to
  ABI-decode them as byte strings"); it fails when the data is shorter than its length
  word announces.
\<close>

definition dec_bytes :: "bytes \<Rightarrow> bytes option" where
  "dec_bytes data =
     (if length data < 32 then None
      else let n = read_word data in
        if length data < 32 + n then None else Some (take n (drop 32 data)))"



text \<open>
  Modelled from the spec: the ABI offsets of consecutive tails, the first one at \<open>base\<close>.
\<close>

fun offsets :: "nat \<Rightarrow> bytes list \<Rightarrow> nat list" where
  "offsets base [] = []"
| "offsets base (t # ts) = base # offsets (base + length t) ts"





text \<open>Modelled from the spec: the error kinds of section 7.\<close>

datatype spec_error =
    InvalidKeystoreFormatError | InvalidPasswordError | OperatorCountMismatchError
  | InvalidOperatorKeyError | InvalidPublicKeyError | InvalidEncryptedShareError
  | ArrayShapeError | UnsupportedVersionError | OrderingError

text \<open>Modelled from the spec: the Operator of section 3, an id and a public key.\<close>

record OperatorEntry =
  operator_id :: nat
  operator_public_key :: bytes

text \<open>
  Modelled from the spec: the Share of section 3, an operator id, the share's public key
  and the encrypted private key.
\<close>

record Share =
  share_operator_id :: nat
  share_public_key :: bytes
  encrypted_private_key :: bytes

text \<open>
  Modelled from the spec: the context of \<open>build\<close>, "either {owner_address, owner_nonce}
  (registration) or {token_amount} (deposit), or both"; an address is the number it
  denotes.
\<close>

datatype build_context =
    Registration nat nat
  | Deposit nat
  | RegistrationDeposit nat nat nat


text \<open>Modelled from the spec: the readable half of the Payload of section 3.\<close>

record Readable =
  readable_owner_address :: "nat option"
  readable_owner_nonce :: "nat option"
  readable_validator_public_key :: bytes
  readable_operator_ids :: "nat list"
  readable_token_amount :: "nat option"

text \<open>Modelled from the spec: the Payload of section 3, readable and raw.\<close>

record Payload =
  readable :: Readable
  raw :: bytes

text \<open>Modelled from the spec: the readable structure that mirrors the encoded fields.\<close>

fun readable_of :: "build_context \<Rightarrow> bytes \<Rightarrow> nat list \<Rightarrow> Readable" where
  "readable_of (Registration address nonce) public_key ids =
     \<lparr>readable_owner_address = Some address, readable_owner_nonce = Some nonce,
      readable_validator_public_key = public_key, readable_operator_ids = ids,
      readable_token_amount = None\<rparr>"
| "readable_of (Deposit amount) public_key ids =
     \<lparr>readable_owner_address = None, readable_owner_nonce = None,
      readable_validator_public_key = public_key, readable_operator_ids = ids,
      readable_token_amount = Some amount\<rparr>"
| "readable_of (RegistrationDeposit address nonce amount) public_key ids =
     \<lparr>readable_owner_address = Some address, readable_owner_nonce = Some nonce,
      readable_validator_public_key = public_key, readable_operator_ids = ids,
      readable_token_amount = Some amount\<rparr>"


section \<open>Key-shares items and documents, from the specification\<close>

text \<open>
  Modelled from the spec: the classes behind \<open>KeySharesItem\<close> and \<open>KeyShares\<close> are not
  among the source files (only the declaration of \<open>KeySharesKeysV2\<close> is), so the item
  of section 4.4 and the collection of section 4.5 are written from the specification's
  words. A document is the tree its persisted text denotes; reading and printing that
  text is left to the platform.
\<close>

datatype json =
    JsonNull
  | JsonNumber int
  | JsonString string
  | JsonArray "json list"
  | JsonObject "(string \<times> json) list"

text \<open>
  Modelled from the spec: the building blocks the specification trusts, the test whether
  a byte string deserializes as a point of the signature curve, and the document's
  supported schema versions.
\<close>

record primitives =
  is_curve_point :: "bytes \<Rightarrow> bool"
  supported_versions :: "string list"

text \<open>
  Modelled from the spec: the KeySharesItem of section 3; an item is created with its
  version only, so the validator public key and the payload may be absent.
\<close>

record KeySharesItem =
  item_version :: string
  item_operators :: "OperatorEntry list"
  item_validator_public_key :: "bytes option"
  item_shares :: "Share list"
  item_payload :: "Payload option"

text \<open>Modelled from the spec: the KeySharesDocument of section 3.\<close>

record KeySharesDocument =
  document_version :: string
  document_items :: "KeySharesItem list"

text \<open>
  Modelled from the spec: what loading a document reports, an error of the envelope or
  "the first invalid item's index and error kind".
\<close>

datatype document_error = EnvelopeError spec_error | ItemError nat spec_error

text \<open>Modelled from the spec: the value of a key of a document object.\<close>

definition field :: "string \<Rightarrow> json \<Rightarrow> json option" where
  "field k j = (case j of JsonObject kvs \<Rightarrow> map_of kvs k | _ \<Rightarrow> None)"

text \<open>Modelled from the spec: a document value of the expected shape "string".\<close>

definition as_string :: "json \<Rightarrow> string option" where
  "as_string j = (case j of JsonString s \<Rightarrow> Some s | _ \<Rightarrow> None)"

text \<open>Modelled from the spec: a document value that is a non-negative integer.\<close>

definition as_nat :: "json \<Rightarrow> nat option" where
  "as_nat j = (case j of JsonNumber n \<Rightarrow> (if 0 \<le> n then Some (nat n) else None) | _ \<Rightarrow> None)"

text \<open>Modelled from the spec: a document value that is a positive integer (operator ids).\<close>

definition as_positive :: "json \<Rightarrow> nat option" where
  "as_positive j = (case j of JsonNumber n \<Rightarrow> (if 0 < n then Some (nat n) else None) | _ \<Rightarrow> None)"

text \<open>Modelled from the spec: an array whose every element has the expected shape.\<close>

definition as_array :: "(json \<Rightarrow> 'a option) \<Rightarrow> json \<Rightarrow> 'a list option" where
  "as_array f j = (case j of JsonArray xs \<Rightarrow> those (map f xs) | _ \<Rightarrow> None)"

text \<open>Modelled from the spec: a field that may be absent (written \<open>?\<close> in sections 3 and 6).\<close>

definition optional :: "string \<Rightarrow> (json \<Rightarrow> 'a option) \<Rightarrow> json \<Rightarrow> 'a option option" where
  "optional k f j = (case field k j of None \<Rightarrow> Some None | Some v \<Rightarrow> map_option Some (f v))"

text \<open>Modelled from the spec: a field that must be present with the expected shape.\<close>

definition required :: "string \<Rightarrow> (json \<Rightarrow> 'a option) \<Rightarrow> json \<Rightarrow> 'a option" where
  "required k f j = (case field k j of None \<Rightarrow> None | Some v \<Rightarrow> f v)"

text \<open>Modelled from the spec: printing a field that may be absent.\<close>

definition optional_field :: "string \<Rightarrow> ('a \<Rightarrow> json) \<Rightarrow> 'a option \<Rightarrow> (string \<times> json) list" where
  "optional_field k f v = (case v of None \<Rightarrow> [] | Some x \<Rightarrow> [(k, f x)])"

text \<open>Modelled from the spec: a number of the document.\<close>

definition json_of_nat :: "nat \<Rightarrow> json" where
  "json_of_nat n = JsonNumber (int n)"

text \<open>Modelled from the spec: an Operator in a document, \<open>{id, public_key}\<close>.\<close>

definition operator_to_json :: "OperatorEntry \<Rightarrow> json" where
  "operator_to_json operator =
     JsonObject [(''id'', json_of_nat (operator_id operator)),
                 (''public_key'', JsonString (operator_public_key operator))]"

text \<open>Modelled from the spec: reading an Operator, whose id is a positive integer.\<close>

definition operator_of_json :: "json \<Rightarrow> OperatorEntry option" where
  "operator_of_json j =
     (case required ''id'' as_positive j of None \<Rightarrow> None | Some i \<Rightarrow>
     (case required ''public_key'' as_string j of None \<Rightarrow> None | Some k \<Rightarrow>
        Some \<lparr>operator_id = i, operator_public_key = k\<rparr>))"

text \<open>
  Modelled from the spec: a Share in a document,
  \<open>{operator_id, public_key, encrypted_private_key}\<close>.
\<close>

definition share_to_json :: "Share \<Rightarrow> json" where
  "share_to_json share =
     JsonObject [(''operator_id'', json_of_nat (share_operator_id share)),
                 (''public_key'', JsonString (share_public_key share)),
                 (''encrypted_private_key'', JsonString (encrypted_private_key share))]"

text \<open>Modelled from the spec: reading a Share.\<close>

definition share_of_json :: "json \<Rightarrow> Share option" where
  "share_of_json j =
     (case required ''operator_id'' as_nat j of None \<Rightarrow> None | Some i \<Rightarrow>
     (case required ''public_key'' as_string j of None \<Rightarrow> None | Some k \<Rightarrow>
     (case required ''encrypted_private_key'' as_string j of None \<Rightarrow> None | Some e \<Rightarrow>
        Some \<lparr>share_operator_id = i, share_public_key = k, encrypted_private_key = e\<rparr>)))"

text \<open>Modelled from the spec: the readable payload in a document.\<close>

definition readable_to_json :: "Readable \<Rightarrow> json" where
  "readable_to_json r =
     JsonObject
       (optional_field ''owner_address'' json_of_nat (readable_owner_address r)
        @ optional_field ''owner_nonce'' json_of_nat (readable_owner_nonce r)
        @ [(''validator_public_key'', JsonString (readable_validator_public_key r)),
           (''operator_ids'', JsonArray (map json_of_nat (readable_operator_ids r)))]
        @ optional_field ''token_amount'' json_of_nat (readable_token_amount r))"

text \<open>Modelled from the spec: reading the readable payload.\<close>

definition readable_of_json :: "json \<Rightarrow> Readable option" where
  "readable_of_json j =
     (case optional ''owner_address'' as_nat j of None \<Rightarrow> None | Some a \<Rightarrow>
     (case optional ''owner_nonce'' as_nat j of None \<Rightarrow> None | Some n \<Rightarrow>
     (case required ''validator_public_key'' as_string j of None \<Rightarrow> None | Some k \<Rightarrow>
     (case required ''operator_ids'' (as_array as_nat) j of None \<Rightarrow> None | Some ids \<Rightarrow>
     (case optional ''token_amount'' as_nat j of None \<Rightarrow> None | Some t \<Rightarrow>
        Some \<lparr>readable_owner_address = a, readable_owner_nonce = n,
              readable_validator_public_key = k, readable_operator_ids = ids,
              readable_token_amount = t\<rparr>)))))"

text \<open>Modelled from the spec: a Payload in a document, \<open>{readable, raw}\<close>.\<close>

definition payload_to_json :: "Payload \<Rightarrow> json" where
  "payload_to_json p =
     JsonObject [(''readable'', readable_to_json (readable p)), (''raw'', JsonString (raw p))]"

text \<open>Modelled from the spec: reading a Payload.\<close>

definition payload_of_json :: "json \<Rightarrow> Payload option" where
  "payload_of_json j =
     (case required ''readable'' readable_of_json j of None \<Rightarrow> None | Some r \<Rightarrow>
     (case required ''raw'' as_string j of None \<Rightarrow> None | Some b \<Rightarrow>
        Some \<lparr>readable = r, raw = b\<rparr>))"

text \<open>
  Modelled from the spec: \<open>to_document_fragment\<close> of section 4.4, the canonical
  serialization of an item with the field names of section 3.
\<close>

definition to_document_fragment :: "KeySharesItem \<Rightarrow> json" where
  "to_document_fragment item =
     JsonObject
       ([(''version'', JsonString (item_version item)),
         (''operators'', JsonArray (map operator_to_json (item_operators item)))]
        @ optional_field ''validator_public_key'' JsonString (item_validator_public_key item)
        @ [(''shares'', JsonArray (map share_to_json (item_shares item)))]
        @ optional_field ''payload'' payload_to_json (item_payload item))"

text \<open>
  Modelled from the spec: reading the fields of an item of version \<open>v\<close>; \<open>None\<close> when an
  array or a structured value has not the expected shape.
\<close>

definition parse_item :: "string \<Rightarrow> json \<Rightarrow> KeySharesItem option" where
  "parse_item v j =
     (case required ''operators'' (as_array operator_of_json) j of None \<Rightarrow> None | Some ops \<Rightarrow>
     (case optional ''validator_public_key'' as_string j of None \<Rightarrow> None | Some k \<Rightarrow>
     (case required ''shares'' (as_array share_of_json) j of None \<Rightarrow> None | Some ss \<Rightarrow>
     (case optional ''payload'' payload_of_json j of None \<Rightarrow> None | Some p \<Rightarrow>
        Some \<lparr>item_version = v, item_operators = ops, item_validator_public_key = k,
              item_shares = ss, item_payload = p\<rparr>))))"

text \<open>
  Modelled from the spec: the invariants of section 3 on the arrays, "operator ids are
  unique positive integers" and "len(operators) == len(shares) whenever shares are
  present".
\<close>

definition array_shape_ok :: "KeySharesItem \<Rightarrow> bool" where
  "array_shape_ok item =
     ((\<forall>operator \<in> set (item_operators item). 0 < operator_id operator) \<and>
      distinct (map operator_id (item_operators item)) \<and>
      (item_shares item \<noteq> [] \<longrightarrow> length (item_shares item) = length (item_operators item)))"

text \<open>
  Modelled from the spec: "public keys are validated by attempting to deserialize them
  as curve points".
\<close>

definition public_keys_ok :: "primitives \<Rightarrow> KeySharesItem \<Rightarrow> bool" where
  "public_keys_ok P item =
     ((case item_validator_public_key item of None \<Rightarrow> True | Some k \<Rightarrow> is_curve_point P k) \<and>
      (\<forall>share \<in> set (item_shares item). is_curve_point P (share_public_key share)))"

text \<open>
  Modelled from the spec: "encrypted shares are validated by attempting to ABI-decode
  them as byte strings".
\<close>

definition encrypted_shares_ok :: "KeySharesItem \<Rightarrow> bool" where
  "encrypted_shares_ok item =
     (\<forall>share \<in> set (item_shares item). dec_bytes (encrypted_private_key share) \<noteq> None)"

text \<open>Modelled from the spec: a valid item, one that meets every invariant of section 3.\<close>

definition valid_item :: "primitives \<Rightarrow> KeySharesItem \<Rightarrow> bool" where
  "valid_item P item =
     (item_version item \<in> set (supported_versions P) \<and>
      array_shape_ok item \<and> public_keys_ok P item \<and> encrypted_shares_ok item)"

text \<open>
  Modelled from the spec: \<open>from_document_fragment\<close> of section 4.4, "full re-validation":
  the version, the shapes, the public keys and the encrypted shares are checked in this
  order, each with its own error kind.
\<close>

definition from_document_fragment :: "primitives \<Rightarrow> json \<Rightarrow> spec_error + KeySharesItem" where
  "from_document_fragment P j =
     (case required ''version'' as_string j of
        None \<Rightarrow> Inl UnsupportedVersionError
      | Some v \<Rightarrow>
          if v \<notin> set (supported_versions P) then Inl UnsupportedVersionError
          else
            (case parse_item v j of
               None \<Rightarrow> Inl ArrayShapeError
             | Some item \<Rightarrow>
                 if \<not> array_shape_ok item then Inl ArrayShapeError
                 else if \<not> public_keys_ok P item then Inl InvalidPublicKeyError
                 else if \<not> encrypted_shares_ok item then Inl InvalidEncryptedShareError
                 else Inr item))"

text \<open>
  Modelled from the spec: the items of a document, re-validated one by one from position
  \<open>index\<close> on; the first invalid item ends the load with its index and error kind.
\<close>

fun validate_items :: "primitives \<Rightarrow> nat \<Rightarrow> json list \<Rightarrow> document_error + KeySharesItem list" where
  "validate_items P index [] = Inr []"
| "validate_items P index (j # rest) =
     (case from_document_fragment P j of
        Inl e \<Rightarrow> Inl (ItemError index e)
      | Inr item \<Rightarrow>
          (case validate_items P (Suc index) rest of
             Inl e \<Rightarrow> Inl e
           | Inr items \<Rightarrow> Inr (item # items)))"

text \<open>Modelled from the spec: \<open>serialize\<close> of section 4.5, \<open>{version, items: [...]}\<close>.\<close>

definition serialize :: "KeySharesDocument \<Rightarrow> json" where
  "serialize doc =
     JsonObject [(''version'', JsonString (document_version doc)),
                 (''items'', JsonArray (map to_document_fragment (document_items doc)))]"

text \<open>
  Modelled from the spec: \<open>deserialize\<close> of section 4.5; the envelope is read, unknown
  versions are rejected, and every item is re-validated.
\<close>

definition deserialize :: "primitives \<Rightarrow> json \<Rightarrow> document_error + KeySharesDocument" where
  "deserialize P j =
     (case required ''version'' as_string j of
        None \<Rightarrow> Inl (EnvelopeError UnsupportedVersionError)
      | Some v \<Rightarrow>
          if v \<notin> set (supported_versions P) then Inl (EnvelopeError UnsupportedVersionError)
          else
            (case field ''items'' j of
               Some (JsonArray fragments) \<Rightarrow>
                 (case validate_items P 0 fragments of
                    Inl e \<Rightarrow> Inl e
                  | Inr items \<Rightarrow> Inr \<lparr>document_version = v, document_items = items\<rparr>)
             | _ \<Rightarrow> Inl (EnvelopeError ArrayShapeError)))"

section \<open>Example inputs\<close>

text \<open>
  A library in which every call succeeds, and whose key-shares item is the list of owner
  nonces it was given: first by \<open>update\<close>, then by \<open>buildPayload\<close>.
\<close>

definition exampleCollaborators :: "(string, unit, jsvalue list) collaborators" where
  "exampleCollaborators =
     \<lparr>sanitizePath = (\<lambda>p. p),
      getKeyStoreFiles = (\<lambda>p. Inr [''v/a'', ''v/b'']),
      readdir = (\<lambda>p. Inr [''keystore-1.json'', ''pw.txt'']),
      fsReadFile = (\<lambda>p. Inr ''secret''),
      readFile = (\<lambda>p. Inr p),
      validateKeystore = (\<lambda>p. Inr True),
      validatePassword = (\<lambda>password p. Inr True),
      extractKeys = (\<lambda>d password. Inr (''priv'', ''pub'')),
      buildShares = (\<lambda>privateKey operators. Inr ()),
      newKeySharesItem = [],
      itemUpdate = (\<lambda>item u. Inr (item @ [update_ownerNonce u])),
      itemBuildPayload = (\<lambda>item d c. Inr (item @ [context_ownerNonce c]))\<rparr>"

definition exampleArgs :: KeySharesArgs where
  "exampleArgs =
     \<lparr>keystore = ''v'', operator_ids = ''1,2,3,4'', operator_keys = ''k1,k2,k3,k4'',
      output_folder = ''out'', owner_address = ''0xabc'', owner_nonce = JNumber (Num 7)\<rparr>"

text \<open>A \<open>buildPayload\<close> that returns the arguments it was called with.\<close>

definition recordingKeys :: "(string, string \<times> string list \<times> string \<times> string) ssvKeys" where
  "recordingKeys =
     \<lparr>readSharesFile = (\<lambda>p. Inr (''contents of '' @ p)),
      buildPayload = (\<lambda>privateKey ids encryptedShares amount.
         Inr (privateKey, ids, encryptedShares, amount))\<rparr>"

text \<open>
  A library whose keystore holds the given private key and the public key \<open>pub\<close>, whose
  shares do not depend on the key, and whose item is what \<open>buildPayload\<close> was called
  with.
\<close>

definition recordingCollaborators ::
  "string \<Rightarrow> (string, string, string PayloadData \<times> PayloadContext) collaborators" where
  "recordingCollaborators privateKey =
     \<lparr>sanitizePath = (\<lambda>p. p),
      getKeyStoreFiles = (\<lambda>p. Inr []),
      readdir = (\<lambda>p. Inr []),
      fsReadFile = (\<lambda>p. Inr ''secret''),
      readFile = (\<lambda>p. Inr p),
      validateKeystore = (\<lambda>p. Inr True),
      validatePassword = (\<lambda>password p. Inr True),
      extractKeys = (\<lambda>d password. Inr (privateKey, ''pub'')),
      buildShares = (\<lambda>k operators. Inr ''shares''),
      newKeySharesItem =
        (\<lparr>data_publicKey = [], data_operators = [], data_encryptedShares = []\<rparr>,
         \<lparr>context_ownerAddress = [], context_ownerNonce = JUndefined, context_privateKey = []\<rparr>),
      itemUpdate = (\<lambda>item u. Inr item),
      itemBuildPayload = (\<lambda>item d c. Inr (d, c))\<rparr>"



text \<open>
  A document of two items for a curve test that accepts every non-empty key: the first
  item is valid, the second has three operators and two shares.
\<close>

definition example_primitives :: primitives where
  "example_primitives = \<lparr>is_curve_point = (\<lambda>k. k \<noteq> []), supported_versions = [''v4'']\<rparr>"

definition example_item :: KeySharesItem where
  "example_item =
     \<lparr>item_version = ''v4'',
      item_operators = [\<lparr>operator_id = 1, operator_public_key = ''rsa1''\<rparr>,
                        \<lparr>operator_id = 2, operator_public_key = ''rsa2''\<rparr>],
      item_validator_public_key = Some ''pub'',
      item_shares = [\<lparr>share_operator_id = 1, share_public_key = ''p1'',
                       encrypted_private_key = enc_bytes ''c1''\<rparr>,
                     \<lparr>share_operator_id = 2, share_public_key = ''p2'',
                       encrypted_private_key = enc_bytes ''c2''\<rparr>],
      item_payload = Some \<lparr>readable = \<lparr>readable_owner_address = None, readable_owner_nonce = None,
                                         readable_validator_public_key = ''pub'',
                                         readable_operator_ids = [1, 2],
                                         readable_token_amount = Some 123456789\<rparr>,
                            raw = ''raw''\<rparr>\<rparr>"

definition short_item :: KeySharesItem where
  "short_item =
     \<lparr>item_version = ''v4'',
      item_operators = [\<lparr>operator_id = 1, operator_public_key = ''rsa1''\<rparr>,
                        \<lparr>operator_id = 2, operator_public_key = ''rsa2''\<rparr>,
                        \<lparr>operator_id = 3, operator_public_key = ''rsa3''\<rparr>],
      item_validator_public_key = Some ''pub'',
      item_shares = [\<lparr>share_operator_id = 1, share_public_key = ''p1'',
                       encrypted_private_key = enc_bytes ''c1''\<rparr>,
                     \<lparr>share_operator_id = 2, share_public_key = ''p2'',
                       encrypted_private_key = enc_bytes ''c2''\<rparr>],
      item_payload = None\<rparr>"

definition example_document :: json where
  "example_document =
     JsonObject [(''version'', JsonString ''v4''),
                 (''items'', JsonArray [to_document_fragment example_item,
                                        to_document_fragment short_item])]"

section \<open>The operator list of the key-shares action\<close>

lemma Num_not_NaN [simp]: "Num n \<noteq> NaN" "NaN \<noteq> Num n"
  by (simp_all add: Num_def)

lemma Num_eq_iff [simp]: "Num a = Num b \<longleftrightarrow> a = b"
  by (simp add: Num_def)






text \<open>
  Claim C5. When the comma-separated operator ids and operator keys differ in number,
  \<open>getOperators\<close> fails with \<open>OperatorsCountsMismatchError\<close>; the callback that would
  build the shares of a keystore file then ends in that error as soon as its password
  file is read, without entering \<open>processFile\<close>, and \<open>Promise.all\<close> over one or
  more such callbacks never resolves to a list of items.
\<close>

theorem getOperators_count_mismatch:
  assumes "length (split_comma (operator_ids args)) \<noteq> length (split_comma (operator_keys args))"
  shows "getOperators args =
           Inl (OperatorsCountsMismatchError (split_comma (operator_ids args))
                  (split_comma (operator_keys args))
                  ''Mismatch amount of operator ids and operator keys.'') \<and>
         processEntry lib args folder f index =
           (case fsReadFile lib (keystore args @ ''/'' @ elementText folder index @ ''/pw.txt'') of
              Inl e \<Rightarrow> Inl e
            | Inr passwordTest \<Rightarrow>
                Inl (OperatorsCountsMismatchError (split_comma (operator_ids args))
                       (split_comma (operator_keys args))
                       ''Mismatch amount of operator ids and operator keys.'')) \<and>
         processEntries lib args folder index (f # rest) \<noteq> Inr items"
proof -
  have g: "getOperators args =
           Inl (OperatorsCountsMismatchError (split_comma (operator_ids args))
                  (split_comma (operator_keys args))
                  ''Mismatch amount of operator ids and operator keys.'')"
    using assms by (simp add: getOperators_def Let_def)
  then have p: "processEntry lib args folder f index =
           (case fsReadFile lib (keystore args @ ''/'' @ elementText folder index @ ''/pw.txt'') of
              Inl e \<Rightarrow> Inl e
            | Inr passwordTest \<Rightarrow>
                Inl (OperatorsCountsMismatchError (split_comma (operator_ids args))
                       (split_comma (operator_keys args))
                       ''Mismatch amount of operator ids and operator keys.''))"
    by (simp add: processEntry_def split: sum.splits)
  then have "processEntries lib args folder index (f # rest) \<noteq> Inr items"
    by (simp split: sum.splits)
  with g p show ?thesis by blast
qed

theorem getOperators_count_mismatch_witness:
  "length (split_comma ''1,2,3'') \<noteq> length (split_comma ''k1,k2'') \<and>
   getOperators (exampleArgs\<lparr>operator_ids := ''1,2,3'', operator_keys := ''k1,k2''\<rparr>) =
     Inl (OperatorsCountsMismatchError [''1'', ''2'', ''3''] [''k1'', ''k2'']
            ''Mismatch amount of operator ids and operator keys.'') \<and>
   processEntry exampleCollaborators
     (exampleArgs\<lparr>operator_ids := ''1,2,3'', operator_keys := ''k1,k2''\<rparr>) [] ''a'' 0 =
     Inl (OperatorsCountsMismatchError [''1'', ''2'', ''3''] [''k1'', ''k2'']
            ''Mismatch amount of operator ids and operator keys.'')"
  using getOperators_count_mismatch
    [of "exampleArgs\<lparr>operator_ids := ''1,2,3'', operator_keys := ''k1,k2''\<rparr>"
        exampleCollaborators "[]" "''a''" 0]
  by (simp add: exampleArgs_def exampleCollaborators_def)





section \<open>Items and owner nonces\<close>







section \<open>What the payload is built from\<close>

lemma processFile_Inr:
  "processFile lib keystoreFilePath password operators ownerAddress ownerNonce = Inr item \<Longrightarrow>
   \<exists>keystoreData privateKey publicKey encryptedShares updated.
     readFile lib keystoreFilePath = Inr keystoreData \<and>
     extractKeys lib keystoreData password = Inr (privateKey, publicKey) \<and>
     buildShares lib privateKey operators = Inr encryptedShares \<and>
     itemUpdate lib (newKeySharesItem lib)
       \<lparr>update_ownerAddress = ownerAddress, update_ownerNonce = ownerNonce,
        update_operators = operators, update_publicKey = publicKey\<rparr> = Inr updated \<and>
     itemBuildPayload lib updated
       \<lparr>data_publicKey = publicKey, data_operators = operators,
        data_encryptedShares = encryptedShares\<rparr>
       \<lparr>context_ownerAddress = ownerAddress, context_ownerNonce = ownerNonce,
        context_privateKey = privateKey\<rparr> = Inr item"
  by (auto simp: processFile_def split: sum.splits prod.splits)

text \<open>
  Claim C1, as the code has it. The payload of the transaction action is the library's
  \<open>buildPayload\<close> applied to the private key, the operator identifiers, the contents of
  the shares file and the token amount: two runs that agree on these four get the same
  payload, whatever the path of the shares file and the output option. An item of the
  key-shares action is the library's \<open>buildPayload\<close> applied to the item that \<open>update\<close>
  made from owner address, owner nonce, operators and public key, to the public key, the
  operators and the encrypted shares, and to a context of owner address, owner nonce and
  the private key that \<open>extractKeys\<close> returned.
\<close>

theorem payload_inputs:
  assumes "private_key a = private_key b"
    and "operators_ids a = operators_ids b"
    and "token_amount a = token_amount b"
    and "readSharesFile keys (shares a) = readSharesFile keys (shares b)"
  shows "executePayload keys a = executePayload keys b \<and>
         (processFile lib keystoreFilePath password operators ownerAddress ownerNonce = Inr item \<longrightarrow>
            (\<exists>keystoreData privateKey publicKey encryptedShares updated.
               readFile lib keystoreFilePath = Inr keystoreData \<and>
               extractKeys lib keystoreData password = Inr (privateKey, publicKey) \<and>
               buildShares lib privateKey operators = Inr encryptedShares \<and>
               itemUpdate lib (newKeySharesItem lib)
                 \<lparr>update_ownerAddress = ownerAddress, update_ownerNonce = ownerNonce,
                  update_operators = operators, update_publicKey = publicKey\<rparr> = Inr updated \<and>
               itemBuildPayload lib updated
                 \<lparr>data_publicKey = publicKey, data_operators = operators,
                  data_encryptedShares = encryptedShares\<rparr>
                 \<lparr>context_ownerAddress = ownerAddress, context_ownerNonce = ownerNonce,
                  context_privateKey = privateKey\<rparr> = Inr item))"
proof
  show "executePayload keys a = executePayload keys b"
    using assms by (simp add: executePayload_def split: sum.splits)
next
  show "processFile lib keystoreFilePath password operators ownerAddress ownerNonce = Inr item \<longrightarrow>
            (\<exists>keystoreData privateKey publicKey encryptedShares updated.
               readFile lib keystoreFilePath = Inr keystoreData \<and>
               extractKeys lib keystoreData password = Inr (privateKey, publicKey) \<and>
               buildShares lib privateKey operators = Inr encryptedShares \<and>
               itemUpdate lib (newKeySharesItem lib)
                 \<lparr>update_ownerAddress = ownerAddress, update_ownerNonce = ownerNonce,
                  update_operators = operators, update_publicKey = publicKey\<rparr> = Inr updated \<and>
               itemBuildPayload lib updated
                 \<lparr>data_publicKey = publicKey, data_operators = operators,
                  data_encryptedShares = encryptedShares\<rparr>
                 \<lparr>context_ownerAddress = ownerAddress, context_ownerNonce = ownerNonce,
                  context_privateKey = privateKey\<rparr> = Inr item)"
    using processFile_Inr[of lib keystoreFilePath password operators ownerAddress ownerNonce item]
    by blast
qed

text \<open>
  Two runs of the transaction action that differ in the private key only: with a
  \<open>buildPayload\<close> that returns its arguments the two results differ, so the private key
  is among the inputs of the payload build. The same holds of two runs of \<open>processFile\<close>
  on keystores with the same public key and different private keys, where operators,
  shares, owner address and owner nonce agree.
\<close>

theorem payload_private_key_counterexample:
  "executePayload recordingKeys
     \<lparr>shares = ''shares.json'', private_key = ''0x01'', operators_ids = ''1,2,3,4'',
      token_amount = ''5'', output' = None\<rparr>
   \<noteq>
   executePayload recordingKeys
     \<lparr>shares = ''shares.json'', private_key = ''0x02'', operators_ids = ''1,2,3,4'',
      token_amount = ''5'', output' = None\<rparr> \<and>
   processFile (recordingCollaborators ''0x01'') ''v/a/keystore-1.json'' ''secret'' []
     ''0xabc'' (JNumber (Num 7))
   \<noteq>
   processFile (recordingCollaborators ''0x02'') ''v/a/keystore-1.json'' ''secret'' []
     ''0xabc'' (JNumber (Num 7))"
  by (simp add: executePayload_def recordingKeys_def processFile_def recordingCollaborators_def)

lemma example_processFile:
  "processFile exampleCollaborators ''v/a/keystore-1.json'' ''secret'' [] ''0xabc'' (JNumber (Num 7))
     = Inr [JNumber (Num 7), JNumber (Num 7)]"
  by (simp add: processFile_def exampleCollaborators_def)

theorem payload_inputs_witness:
  "executePayload recordingKeys
     \<lparr>shares = ''shares.json'', private_key = ''0x01'', operators_ids = ''1,2,3,4'',
      token_amount = ''5'', output' = None\<rparr>
   = executePayload recordingKeys
     \<lparr>shares = ''shares.json'', private_key = ''0x01'', operators_ids = ''1,2,3,4'',
      token_amount = ''5'', output' = Some ''explained.txt''\<rparr> \<and>
   processFile exampleCollaborators ''v/a/keystore-1.json'' ''secret'' [] ''0xabc'' (JNumber (Num 7))
     = Inr [JNumber (Num 7), JNumber (Num 7)]"
  using payload_inputs
    [of "\<lparr>shares = ''shares.json'', private_key = ''0x01'', operators_ids = ''1,2,3,4'',
          token_amount = ''5'', output' = None\<rparr>"
        "\<lparr>shares = ''shares.json'', private_key = ''0x01'', operators_ids = ''1,2,3,4'',
          token_amount = ''5'', output' = Some ''explained.txt''\<rparr>"
        recordingKeys exampleCollaborators "''v/a/keystore-1.json''" "''secret''" "[]" "''0xabc''"
        "JNumber (Num 7)" "[JNumber (Num 7), JNumber (Num 7)]"]
    example_processFile
  by simp

section \<open>The ABI encoding decodes to what was encoded\<close>

lemma length_be_bytes [simp]: "length (be_bytes k n) = k"
  by (induction k arbitrary: n) auto

lemma read_nat_snoc: "read_nat (bs @ [c]) = 256 * read_nat bs + of_char c"
  by (simp add: read_nat_def)

lemma read_nat_be_bytes: "n < 256 ^ k \<Longrightarrow> read_nat (be_bytes k n) = n"
proof (induction k arbitrary: n)
  case 0
  then show ?case by (simp add: read_nat_def)
next
  case (Suc k)
  have "n div 256 < 256 ^ k" using Suc.prems by (simp add: less_mult_imp_div_less mult.commute)
  then have "read_nat (be_bytes k (n div 256)) = n div 256" by (rule Suc.IH)
  then show ?case by (simp add: read_nat_snoc)
qed

lemma length_word32 [simp]: "length (word32 n) = 32"
  by (simp add: word32_def)

lemma read_word_word32: "n < 256 ^ 32 \<Longrightarrow> read_word (word32 n @ rest) = n"
  by (simp add: read_word_def word32_def read_nat_be_bytes del: be_bytes.simps)

lemma length_pad32_ge: "length b \<le> length (pad32 b)"
  by (simp add: pad32_def)

lemma dec_enc_bytes: "length b < 256 ^ 32 \<Longrightarrow> dec_bytes (enc_bytes b @ rest) = Some b"
proof -
  assume b: "length b < 256 ^ 32"
  have w: "read_word (enc_bytes b @ rest) = length b"
    using read_word_word32[OF b] by (simp add: enc_bytes_def)
  have l: "\<not> length (enc_bytes b @ rest) < 32" "\<not> length (enc_bytes b @ rest) < 32 + length b"
    using length_pad32_ge[of b] by (simp_all add: enc_bytes_def)
  have d: "take (length b) (drop 32 (enc_bytes b @ rest)) = b"
    by (simp add: enc_bytes_def pad32_def)
  show ?thesis unfolding dec_bytes_def Let_def w using l d by simp
qed

lemma dec_enc_bytes_exact: "length b < 256 ^ 32 \<Longrightarrow> dec_bytes (enc_bytes b) = Some b"
  using dec_enc_bytes[of b "[]"] by simp

lemma length_concat_word32 [simp]: "length (concat (map word32 xs)) = 32 * length xs"
  by (induction xs) auto




lemma length_offsets [simp]: "length (offsets base ts) = length ts"
  by (induction ts arbitrary: base) auto








section \<open>The payload assembler sorts operators and shares together\<close>

lemma readable_of_simps [simp]:
  "readable_operator_ids (readable_of ctx pk ids) = ids"
  "readable_validator_public_key (readable_of ctx pk ids) = pk"
  by (cases ctx; simp)+







section \<open>Items survive the document and are validated on the way in\<close>

lemma as_nat_json_of_nat [simp]: "as_nat (json_of_nat n) = Some n"
  by (simp add: as_nat_def json_of_nat_def)

lemma those_map_comp:
  "(\<And>x. x \<in> set xs \<Longrightarrow> f (g x) = Some x) \<Longrightarrow> those (map (f \<circ> g) xs) = Some xs"
  by (induction xs) auto

lemma those_nat_roundtrip [simp]: "those (map (as_nat \<circ> json_of_nat) xs) = Some xs"
  by (rule those_map_comp) simp

lemma as_positive_json_of_nat [simp]: "0 < n \<Longrightarrow> as_positive (json_of_nat n) = Some n"
  by (simp add: as_positive_def json_of_nat_def)

lemma as_string_JsonString [simp]: "as_string (JsonString s) = Some s"
  by (simp add: as_string_def)

lemma operator_roundtrip: "0 < operator_id operator \<Longrightarrow> operator_of_json (operator_to_json operator) = Some operator"
  by (simp add: operator_of_json_def operator_to_json_def required_def field_def)

lemma share_roundtrip: "share_of_json (share_to_json share) = Some share"
  by (simp add: share_of_json_def share_to_json_def required_def field_def)

lemma readable_roundtrip: "readable_of_json (readable_to_json r) = Some r"
  by (cases "readable_owner_address r"; cases "readable_owner_nonce r"; cases "readable_token_amount r")
     (simp_all add: readable_of_json_def readable_to_json_def required_def optional_def field_def
        optional_field_def as_array_def)

lemma payload_roundtrip: "payload_of_json (payload_to_json p) = Some p"
  by (simp add: payload_of_json_def payload_to_json_def required_def field_def readable_roundtrip)

lemma parse_item_roundtrip:
  assumes "\<forall>operator \<in> set (item_operators item). 0 < operator_id operator"
  shows "parse_item (item_version item) (to_document_fragment item) = Some item"
proof -
  have ops: "those (map (operator_of_json \<circ> operator_to_json) (item_operators item))
      = Some (item_operators item)"
    by (rule those_map_comp) (use assms operator_roundtrip in auto)
  have ss: "those (map (share_of_json \<circ> share_to_json) (item_shares item)) = Some (item_shares item)"
    by (rule those_map_comp) (rule share_roundtrip)
  show ?thesis
    by (cases "item_validator_public_key item"; cases "item_payload item")
       (simp_all add: parse_item_def to_document_fragment_def required_def optional_def field_def
          optional_field_def as_array_def ops ss payload_roundtrip)
qed

lemma parse_item_version: "parse_item v j = Some item \<Longrightarrow> item_version item = v"
  by (auto simp: parse_item_def split: option.splits)

lemma from_document_fragment_valid:
  "from_document_fragment P j = Inr item \<Longrightarrow> valid_item P item"
  by (auto simp: from_document_fragment_def valid_item_def parse_item_version
        split: option.splits if_splits)

lemma from_to_document_fragment:
  assumes "valid_item P item"
  shows "from_document_fragment P (to_document_fragment item) = Inr item"
proof -
  have v: "required ''version'' as_string (to_document_fragment item) = Some (item_version item)"
    by (simp add: required_def field_def to_document_fragment_def)
  have "\<forall>operator \<in> set (item_operators item). 0 < operator_id operator"
    using assms by (simp add: valid_item_def array_shape_ok_def)
  then have p: "parse_item (item_version item) (to_document_fragment item) = Some item"
    by (rule parse_item_roundtrip)
  show ?thesis
    unfolding from_document_fragment_def v using assms p by (simp add: valid_item_def)
qed

text \<open>
  Claim C7, for the item modelled from the specification. A valid item, serialized to a
  document fragment and deserialized, is the item again; and whatever fragment is
  deserialized, an item is returned only if it is valid.
\<close>

theorem fragment_roundtrip:
  "(valid_item P item \<longrightarrow>
      from_document_fragment P (to_document_fragment item) = Inr item) \<and>
   (from_document_fragment P j = Inr loaded \<longrightarrow> valid_item P loaded)"
proof (intro conjI impI)
  assume "valid_item P item"
  then show "from_document_fragment P (to_document_fragment item) = Inr item"
    by (rule from_to_document_fragment)
next
  assume "from_document_fragment P j = Inr loaded"
  then show "valid_item P loaded"
    by (rule from_document_fragment_valid)
qed

lemma example_item_valid: "valid_item example_primitives example_item"
  by (simp add: valid_item_def example_primitives_def example_item_def array_shape_ok_def
        public_keys_ok_def encrypted_shares_ok_def dec_enc_bytes_exact)

theorem fragment_roundtrip_witness:
  "valid_item example_primitives example_item \<and>
   from_document_fragment example_primitives (to_document_fragment example_item) = Inr example_item"
  using fragment_roundtrip[of example_primitives example_item "to_document_fragment example_item"
          example_item] example_item_valid
  by simp

section \<open>Loading a document is all or nothing\<close>

lemma validate_items_Inr:
  "validate_items P index fragments = Inr items \<Longrightarrow>
     length items = length fragments \<and>
     (\<forall>i < length fragments. from_document_fragment P (fragments ! i) = Inr (items ! i))"
proof (induction fragments arbitrary: index items)
  case Nil
  then show ?case by simp
next
  case (Cons j rest)
  from Cons.prems obtain item items' where
    h: "from_document_fragment P j = Inr item"
    and r: "validate_items P (Suc index) rest = Inr items'"
    and i: "items = item # items'"
    by (auto split: sum.splits)
  from Cons.IH[OF r] have len: "length items' = length rest"
    and ih: "\<And>i. i < length rest \<Longrightarrow> from_document_fragment P (rest ! i) = Inr (items' ! i)"
    by auto
  have "from_document_fragment P ((j # rest) ! k) = Inr (items ! k)" if "k < length (j # rest)" for k
    using that h ih i by (cases k) auto
  then show ?case using len i by simp
qed

lemma validate_items_Inl:
  "validate_items P index fragments = Inl err \<Longrightarrow>
     \<exists>i e. err = ItemError (index + i) e \<and> i < length fragments \<and>
       from_document_fragment P (fragments ! i) = Inl e \<and>
       (\<forall>k < i. \<exists>item. from_document_fragment P (fragments ! k) = Inr item)"
proof (induction fragments arbitrary: index)
  case Nil
  then show ?case by simp
next
  case (Cons j rest)
  show ?case
  proof (cases "from_document_fragment P j")
    case (Inl e)
    then have "err = ItemError (index + 0) e" using Cons.prems by simp
    then show ?thesis using Inl by (intro exI[of _ 0] exI[of _ e]) simp
  next
    case (Inr item)
    then have "validate_items P (Suc index) rest = Inl err"
      using Cons.prems by (simp split: sum.splits)
    from Cons.IH[OF this] obtain i e where
      e: "err = ItemError (Suc index + i) e" and i: "i < length rest"
      and f: "from_document_fragment P (rest ! i) = Inl e"
      and b: "\<forall>k < i. \<exists>item. from_document_fragment P (rest ! k) = Inr item"
      by blast
    have "\<exists>item. from_document_fragment P ((j # rest) ! k) = Inr item" if "k < Suc i" for k
      using that Inr b by (cases k) auto
    then show ?thesis using e i f by (intro exI[of _ "Suc i"] exI[of _ e]) simp
  qed
qed

lemma short_shares_rejected:
  assumes "required ''version'' as_string j = Some v" and "v \<in> set (supported_versions P)"
    and "parse_item v j = Some item"
    and "length (item_shares item) = 2" and "length (item_operators item) = 3"
  shows "from_document_fragment P j = Inl ArrayShapeError"
proof -
  have "item_shares item \<noteq> []" using assms(4) by auto
  then have "\<not> array_shape_ok item" using assms(4,5) by (simp add: array_shape_ok_def)
  then show ?thesis using assms(1-3) by (simp add: from_document_fragment_def)
qed

lemma deserialize_accepted:
  assumes "required ''version'' as_string doc = Some v"
    and "v \<in> set (supported_versions P)"
    and "field ''items'' doc = Some (JsonArray fragments)"
  shows "deserialize P doc =
      (case validate_items P 0 fragments of
         Inl e \<Rightarrow> Inl e
       | Inr items \<Rightarrow> Inr \<lparr>document_version = v, document_items = items\<rparr>)"
  using assms by (simp add: deserialize_def)

lemma deserialize_not_accepted:
  assumes "\<not> (\<exists>v fragments. required ''version'' as_string doc = Some v \<and>
              v \<in> set (supported_versions P) \<and> field ''items'' doc = Some (JsonArray fragments))"
  shows "\<exists>e. deserialize P doc = Inl (EnvelopeError e)"
  using assms by (auto simp: deserialize_def split: option.splits json.splits)

lemma deserialize_Inr:
  assumes "deserialize P doc = Inr c"
  shows "\<exists>fragments. field ''items'' doc = Some (JsonArray fragments) \<and>
           length (document_items c) = length fragments \<and>
           (\<forall>i < length fragments.
              from_document_fragment P (fragments ! i) = Inr (document_items c ! i))"
proof -
  from assms deserialize_not_accepted[of doc P] obtain v fragments where
    a: "required ''version'' as_string doc = Some v" "v \<in> set (supported_versions P)"
       "field ''items'' doc = Some (JsonArray fragments)"
    by fastforce
  from assms deserialize_accepted[OF a] obtain items where
    v: "validate_items P 0 fragments = Inr items" and c: "document_items c = items"
    by (auto split: sum.splits)
  from validate_items_Inr[OF v] a(3) c show ?thesis by auto
qed

lemma deserialize_ItemError:
  assumes "deserialize P doc = Inl (ItemError i e)"
  shows "\<exists>fragments. field ''items'' doc = Some (JsonArray fragments) \<and> i < length fragments \<and>
           from_document_fragment P (fragments ! i) = Inl e \<and>
           (\<forall>k < i. \<exists>item. from_document_fragment P (fragments ! k) = Inr item)"
proof -
  from assms deserialize_not_accepted[of doc P] obtain v fragments where
    a: "required ''version'' as_string doc = Some v" "v \<in> set (supported_versions P)"
       "field ''items'' doc = Some (JsonArray fragments)"
    by fastforce
  from assms deserialize_accepted[OF a] have "validate_items P 0 fragments = Inl (ItemError i e)"
    by (auto split: sum.splits)
  from validate_items_Inl[OF this] a(3) show ?thesis by auto
qed

lemma deserialize_EnvelopeError:
  assumes "deserialize P doc = Inl (EnvelopeError e)"
  shows "\<not> (\<exists>v fragments. required ''version'' as_string doc = Some v \<and>
              v \<in> set (supported_versions P) \<and> field ''items'' doc = Some (JsonArray fragments))"
proof
  assume "\<exists>v fragments. required ''version'' as_string doc = Some v \<and>
            v \<in> set (supported_versions P) \<and> field ''items'' doc = Some (JsonArray fragments)"
  then obtain v fragments where
    a: "required ''version'' as_string doc = Some v" "v \<in> set (supported_versions P)"
       "field ''items'' doc = Some (JsonArray fragments)"
    by blast
  show False
  proof (cases "validate_items P 0 fragments")
    case (Inl err)
    from validate_items_Inl[OF Inl] assms deserialize_accepted[OF a] Inl show False by auto
  next
    case (Inr items)
    with assms deserialize_accepted[OF a] show False by simp
  qed
qed

lemma deserialize_short_shares:
  assumes a: "required ''version'' as_string doc = Some v" "v \<in> set (supported_versions P)"
      "field ''items'' doc = Some (JsonArray fragments)"
    and i: "i < length fragments"
    and before: "\<forall>k < i. \<exists>earlier. from_document_fragment P (fragments ! k) = Inr earlier"
    and w: "required ''version'' as_string (fragments ! i) = Some w"
      "w \<in> set (supported_versions P)" "parse_item w (fragments ! i) = Some item"
      "length (item_shares item) = 2" "length (item_operators item) = 3"
  shows "deserialize P doc = Inl (ItemError i ArrayShapeError)"
proof -
  have bad: "from_document_fragment P (fragments ! i) = Inl ArrayShapeError"
    using short_shares_rejected[OF w] .
  show ?thesis
  proof (cases "validate_items P 0 fragments")
    case (Inr items)
    from validate_items_Inr[OF Inr] bad i show ?thesis by auto
  next
    case (Inl err)
    from validate_items_Inl[OF Inl] obtain i' e where
      err: "err = ItemError i' e" and i': "i' < length fragments"
      and e: "from_document_fragment P (fragments ! i') = Inl e"
      and b': "\<forall>k < i'. \<exists>item. from_document_fragment P (fragments ! k) = Inr item"
      by auto
    have "i' = i"
    proof (rule ccontr)
      assume "i' \<noteq> i"
      then consider "i' < i" | "i < i'" by linarith
      then show False
      proof cases
        case 1
        then show False using before e by auto
      next
        case 2
        then show False using b' bad by auto
      qed
    qed
    then show ?thesis using deserialize_accepted[OF a] Inl err e bad by simp
  qed
qed

text \<open>
  Claim C9, for the collection modelled from the specification. Whatever the document,
  \<open>deserialize\<close> ends in one of three ways. When it returns a collection, the document
  holds an array of items and the collection holds, position by position, the validated
  reading of every one of them. When it reports an item, that item is the first of the
  array that does not validate, the error kind is that item's, every item before it is
  valid, and no collection is returned. It reports the envelope only when the envelope
  itself is not accepted (no supported version, or no array of items). In particular, in
  an accepted envelope, when the first invalid item is one with two shares and three
  operators, the load fails with \<open>ArrayShapeError\<close> at that item's index.
\<close>

theorem deserialize_all_or_nothing:
  "(\<forall>c. deserialize P doc = Inr c \<longrightarrow>
      (\<exists>fragments. field ''items'' doc = Some (JsonArray fragments) \<and>
         length (document_items c) = length fragments \<and>
         (\<forall>i < length fragments.
            from_document_fragment P (fragments ! i) = Inr (document_items c ! i)))) \<and>
   (\<forall>i e. deserialize P doc = Inl (ItemError i e) \<longrightarrow>
      (\<exists>fragments. field ''items'' doc = Some (JsonArray fragments) \<and> i < length fragments \<and>
         from_document_fragment P (fragments ! i) = Inl e \<and>
         (\<forall>k < i. \<exists>item. from_document_fragment P (fragments ! k) = Inr item))) \<and>
   (\<forall>e. deserialize P doc = Inl (EnvelopeError e) \<longrightarrow>
      \<not> (\<exists>v fragments. required ''version'' as_string doc = Some v \<and>
            v \<in> set (supported_versions P) \<and> field ''items'' doc = Some (JsonArray fragments))) \<and>
   (\<forall>v fragments i w item.
      required ''version'' as_string doc = Some v \<and> v \<in> set (supported_versions P) \<and>
      field ''items'' doc = Some (JsonArray fragments) \<and> i < length fragments \<and>
      (\<forall>k < i. \<exists>earlier. from_document_fragment P (fragments ! k) = Inr earlier) \<and>
      required ''version'' as_string (fragments ! i) = Some w \<and>
      w \<in> set (supported_versions P) \<and> parse_item w (fragments ! i) = Some item \<and>
      length (item_shares item) = 2 \<and> length (item_operators item) = 3
      \<longrightarrow> deserialize P doc = Inl (ItemError i ArrayShapeError))"
proof (intro conjI allI impI)
  fix c assume "deserialize P doc = Inr c"
  then show "\<exists>fragments. field ''items'' doc = Some (JsonArray fragments) \<and>
         length (document_items c) = length fragments \<and>
         (\<forall>i < length fragments.
            from_document_fragment P (fragments ! i) = Inr (document_items c ! i))"
    by (rule deserialize_Inr)
next
  fix i e assume "deserialize P doc = Inl (ItemError i e)"
  then show "\<exists>fragments. field ''items'' doc = Some (JsonArray fragments) \<and> i < length fragments \<and>
         from_document_fragment P (fragments ! i) = Inl e \<and>
         (\<forall>k < i. \<exists>item. from_document_fragment P (fragments ! k) = Inr item)"
    by (rule deserialize_ItemError)
next
  fix e assume "deserialize P doc = Inl (EnvelopeError e)"
  then show "\<not> (\<exists>v fragments. required ''version'' as_string doc = Some v \<and>
            v \<in> set (supported_versions P) \<and> field ''items'' doc = Some (JsonArray fragments))"
    by (rule deserialize_EnvelopeError)
next
  fix v fragments i w item
  assume "required ''version'' as_string doc = Some v \<and> v \<in> set (supported_versions P) \<and>
      field ''items'' doc = Some (JsonArray fragments) \<and> i < length fragments \<and>
      (\<forall>k < i. \<exists>earlier. from_document_fragment P (fragments ! k) = Inr earlier) \<and>
      required ''version'' as_string (fragments ! i) = Some w \<and>
      w \<in> set (supported_versions P) \<and> parse_item w (fragments ! i) = Some item \<and>
      length (item_shares item) = 2 \<and> length (item_operators item) = 3"
  then show "deserialize P doc = Inl (ItemError i ArrayShapeError)"
    using deserialize_short_shares[of doc v P fragments i w item] by blast
qed

lemma short_item_parse:
  "parse_item ''v4'' (to_document_fragment short_item) = Some short_item"
  using parse_item_roundtrip[of short_item] by (simp add: short_item_def)

lemma example_document_fields:
  "required ''version'' as_string example_document = Some ''v4''"
  "field ''items'' example_document =
     Some (JsonArray [to_document_fragment example_item, to_document_fragment short_item])"
  by (simp_all add: example_document_def required_def field_def)

theorem deserialize_all_or_nothing_witness:
  "required ''version'' as_string example_document = Some ''v4'' \<and>
   ''v4'' \<in> set (supported_versions example_primitives) \<and>
   field ''items'' example_document =
     Some (JsonArray [to_document_fragment example_item, to_document_fragment short_item]) \<and>
   from_document_fragment example_primitives (to_document_fragment example_item) = Inr example_item \<and>
   length (item_shares short_item) = 2 \<and> length (item_operators short_item) = 3 \<and>
   deserialize example_primitives example_document = Inl (ItemError 1 ArrayShapeError)"
proof -
  have s: "''v4'' \<in> set (supported_versions example_primitives)"
    by (simp add: example_primitives_def)
  have first: "from_document_fragment example_primitives (to_document_fragment example_item)
      = Inr example_item"
    using from_to_document_fragment[OF example_item_valid] .
  have v: "required ''version'' as_string (to_document_fragment short_item) = Some ''v4''"
    by (simp add: required_def field_def to_document_fragment_def short_item_def)
  have l: "length (item_shares short_item) = 2" "length (item_operators short_item) = 3"
    by (simp_all add: short_item_def)
  let ?fragments = "[to_document_fragment example_item, to_document_fragment short_item]"
  have before: "\<forall>k < 1. \<exists>earlier.
      from_document_fragment example_primitives (?fragments ! k) = Inr earlier"
    using first by simp
  note scenario = deserialize_all_or_nothing[of example_primitives example_document,
      THEN conjunct2, THEN conjunct2, THEN conjunct2, rule_format,
      of "''v4''" ?fragments 1 "''v4''" short_item]
  have d: "deserialize example_primitives example_document = Inl (ItemError 1 ArrayShapeError)"
  proof (rule scenario, intro conjI)
    show "required ''version'' as_string example_document = Some ''v4''"
      by (rule example_document_fields(1))
    show "''v4'' \<in> set (supported_versions example_primitives)" by (rule s)
    show "field ''items'' example_document = Some (JsonArray ?fragments)"
      by (rule example_document_fields(2))
    show "1 < length ?fragments" by simp
    show "\<forall>k < 1. \<exists>earlier.
      from_document_fragment example_primitives (?fragments ! k) = Inr earlier"
      by (rule before)
    show "required ''version'' as_string (?fragments ! 1) = Some ''v4''" using v by simp
    show "''v4'' \<in> set (supported_versions example_primitives)" by (rule s)
    show "parse_item ''v4'' (?fragments ! 1) = Some short_item" using short_item_parse by simp
    show "length (item_shares short_item) = 2" by (rule l(1))
    show "length (item_operators short_item) = 3" by (rule l(2))
  qed
  show ?thesis using example_document_fields s first l d by simp
qed

end
